theory Spec2Isabelle
  imports Complex_Main
begin

section \<open>Python values and exceptions\<close>

text \<open>
  The exceptions that the code of \<^verbatim>\<open>gpt.py\<close> can raise. \<open>ValueError\<close> and the plain
  \<open>Exception\<close> carry the message the source gives them; \<open>AttributeError\<close> carries the
  attribute name that was looked up. \<open>OverflowError\<close> is what Python's true division of
  two integers raises when the quotient is too large for a float, \<open>IndexError\<close> what
  indexing an empty list raises, \<open>TypeError\<close> what a call raises that is given the same
  keyword argument twice. \<open>ServiceError\<close> is an exception raised inside the \<^verbatim>\<open>openai\<close>
  package, with the name of its class: it passes through \<^verbatim>\<open>response\<close> unchanged.
\<close>

datatype error =
    ValueError string
  | PyException string
  | AttributeError string
  | OverflowError
  | ZeroDivisionError
  | IndexError
  | TypeError
  | ServiceError string

abbreviation InvalidModel :: error where
  "InvalidModel \<equiv> ValueError ''Provide a valid model using the <gpt.Model> datatype.''"

abbreviation RemoteCallFailed :: error where
  "RemoteCallFailed \<equiv> PyException ''The ChatCompletions request was not successfully made.''"

section \<open>Binary64 floating point\<close>

text \<open>
  A finite Python float is represented by its exact rational value. The only floats the
  code computes are quotients of an integer by 1000, their products with a rate of the
  \<open>Model\<close> enum, and the sum of two such products: these are never infinite, never NaN
  and never a negative zero (a quotient too large for a float raises \<open>OverflowError\<close>
  before anything else is computed), so the rational value determines the float.
  \<open>round_double\<close> is rounding to the nearest binary64 value, ties to even, with gradual
  underflow; it does not bound the exponent from above, the callers compare with
  \<open>double_max\<close>.
\<close>

type_synonym double = rat

function bit_length :: "int \<Rightarrow> int" where
  "bit_length n = (if n \<le> 0 then 0 else 1 + bit_length (n div 2))"
  by pat_completeness auto
termination
  by (relation "measure nat") auto

function pow2 :: "int \<Rightarrow> rat" where
  "pow2 e = (if e = 0 then 1 else if 0 < e then 2 * pow2 (e - 1) else pow2 (e + 1) / 2)"
  by pat_completeness auto
termination
  by (relation "measure (\<lambda>e. nat \<bar>e\<bar>)") auto

text \<open>For \<open>q > 0\<close>, the exponent \<open>e\<close> with \<open>2^e \<le> q < 2^(e+1)\<close>.\<close>

definition floor_log2 :: "rat \<Rightarrow> int" where
  "floor_log2 q =
     (let (a, b) = quotient_of q;
          e0 = bit_length a - bit_length b
      in if pow2 e0 \<le> q then e0 else e0 - 1)"

definition round_half_even :: "rat \<Rightarrow> int" where
  "round_half_even m =
     (let f = \<lfloor>m\<rfloor>; r = m - of_int f
      in if r < 1 / 2 then f
         else if 1 / 2 < r then f + 1
         else if even f then f else f + 1)"

definition round_double :: "rat \<Rightarrow> double" where
  "round_double q =
     (if q = 0 then 0
      else let e = max (floor_log2 \<bar>q\<bar>) (- 1022);
               ulp = pow2 (e - 52)
           in of_int (round_half_even (q / ulp)) * ulp)"

definition double_max :: double where
  "double_max = (pow2 53 - 1) * pow2 971"

text \<open>Python's \<^verbatim>\<open>a / b\<close> on two \<^verbatim>\<open>int\<close>s: the correctly rounded quotient.\<close>

definition int_truediv :: "int \<Rightarrow> int \<Rightarrow> error + double" where
  "int_truediv a b =
     (if b = 0 then Inl ZeroDivisionError
      else let r = round_double (of_int a / of_int b)
           in if double_max < \<bar>r\<bar> then Inl OverflowError else Inr r)"

definition float_mul :: "double \<Rightarrow> double \<Rightarrow> double" where
  "float_mul x y = round_double (x * y)"

definition float_add :: "double \<Rightarrow> double \<Rightarrow> double" where
  "float_add x y = round_double (x + y)"

text \<open>A float literal of the source denotes the double nearest to its decimal value.\<close>

definition float_literal :: "rat \<Rightarrow> double" where
  "float_literal q = round_double q"

subsection \<open>The format specification \<^verbatim>\<open>.2f\<close>\<close>

definition digit_char :: "int \<Rightarrow> char" where
  "digit_char d = ''0123456789'' ! nat d"

function str_nonneg :: "int \<Rightarrow> string" where
  "str_nonneg n = (if n < 10 then [digit_char n] else str_nonneg (n div 10) @ [digit_char (n mod 10)])"
  by pat_completeness auto
termination
  by (relation "measure nat") auto

text \<open>
  \<^verbatim>\<open>f"{x:.2f}"\<close> prints the exact value of the double rounded to two decimals, a tie
  going to the even digit, and keeps the sign of a negative value that rounds to zero.
\<close>

definition format_2f :: "double \<Rightarrow> string" where
  "format_2f x =
     (let c = round_half_even (\<bar>x\<bar> * 100)
      in (if x < 0 then ''-'' else '''') @ str_nonneg (c div 100) @ ''.'' @
         [digit_char (c mod 100 div 10), digit_char (c mod 10)])"

section \<open>The Model enum\<close>

datatype Model = GPT4 | GPT4_32K | GPT3_5

text \<open>\<^verbatim>\<open>model.value\<close>: the identifier and the two rates per 1000 tokens.\<close>

fun model_value :: "Model \<Rightarrow> string \<times> double \<times> double" where
  "model_value GPT4 = (''gpt-4'', float_literal (3 / 100), float_literal (6 / 100))"
| "model_value GPT4_32K = (''gpt-4-32k'', float_literal (6 / 100), float_literal (12 / 100))"
| "model_value GPT3_5 = (''gpt-3.5-turbo'', float_literal (2 / 1000), float_literal (2 / 1000))"

text \<open>
  The members of the enum by name, in the order of the class body, and the lookup
  \<^verbatim>\<open>Model.<name>\<close> of a member: a name that is no member raises \<open>AttributeError\<close>.
\<close>

definition Model_members :: "(string \<times> Model) list" where
  "Model_members = [(''GPT4'', GPT4), (''GPT4_32K'', GPT4_32K), (''GPT3_5'', GPT3_5)]"

definition Model_getattr :: "string \<Rightarrow> error + Model" where
  "Model_getattr name =
     (case map_of Model_members name of
        None \<Rightarrow> Inl (AttributeError name)
      | Some m \<Rightarrow> Inr m)"

text \<open>
  What a caller can pass where a \<open>Model\<close> is expected: Python checks nothing before
  \<^verbatim>\<open>isinstance\<close> does.
\<close>

datatype py_value =
    PyModel Model
  | PyStr string
  | PyInt int
  | PyNone
  | PyTuple "py_value list"

fun isinstance_Model :: "py_value \<Rightarrow> bool" where
  "isinstance_Model (PyModel m) = True"
| "isinstance_Model v = False"

section \<open>The session object\<close>

text \<open>
  An exchange is the two-element list \<^verbatim>\<open>[prompt, reply]\<close>, the reply \<^verbatim>\<open>None\<close> until it
  is set. The attribute \<^verbatim>\<open>cost\<close> holds the type object \<^verbatim>\<open>str\<close> after construction and a
  string after a response. The fields \<open>model\<close>, \<open>rate\<close> and \<open>system\<close> are the source's
  \<^verbatim>\<open>_model\<close>, \<^verbatim>\<open>_rate\<close> and \<^verbatim>\<open>_system\<close>.
\<close>

type_synonym exchange = "string \<times> string option"

datatype cost_value = StrType | Str string

record LazyGPT =
  model :: string
  rate :: "double \<times> double"
  system :: "string option"
  messages :: "exchange list"
  cost :: cost_value
  prompt_tokens :: int
  completion_tokens :: int

subsection \<open>The external collaborators\<close>

datatype role = System | User | Assistant

type_synonym message = "role \<times> string"

text \<open>
  Modelled from the spec: \<^verbatim>\<open>helpers.compile_messages\<close>, a module of the repository that
  is not among the sources. The spec: an optional leading system message (if the system
  prompt is set) followed by, for every exchange in history, a user-role message with
  its prompt and (if the reply is set) an assistant-role message with its reply.
\<close>

fun exchange_messages :: "exchange \<Rightarrow> message list" where
  "exchange_messages (p, None) = [(User, p)]"
| "exchange_messages (p, Some r) = [(User, p), (Assistant, r)]"

definition compile_messages :: "exchange list \<Rightarrow> string option \<Rightarrow> message list" where
  "compile_messages msgs sys =
     (case sys of None \<Rightarrow> [] | Some sp \<Rightarrow> [(System, sp)]) @ concat (map exchange_messages msgs)"

text \<open>
  The result of \<^verbatim>\<open>openai.ChatCompletion.create\<close>: the two usage counts and, for each
  choice, the content of its message, which the service may leave \<^verbatim>\<open>None\<close>.
\<close>

record api_response =
  usage_prompt_tokens :: int
  usage_completion_tokens :: int
  choices :: "string option list"

text \<open>
  The keyword arguments passed through are a dictionary from names to values. The
  parameters of \<^verbatim>\<open>response\<close> itself (\<^verbatim>\<open>prompt\<close>, \<^verbatim>\<open>just_reply\<close>) never occur among them:
  Python binds those names before the body runs.
\<close>

type_synonym 'v kwargs = "(string \<times> 'v) list"

text \<open>
  The external service is a parameter of \<open>response\<close>. It has a state of its own (the
  remote side, or what a test double has recorded), so asking twice is not asking once:
  a call takes the model identifier, the message list, the keyword arguments and the
  state, and gives the new state with either the exception the package raised, or
  \<^verbatim>\<open>None\<close>, or a result.
\<close>

type_synonym ('v, 'w) create =
  "string \<Rightarrow> message list \<Rightarrow> 'v kwargs \<Rightarrow> 'w \<Rightarrow> (string + api_response option) \<times> 'w"

text \<open>
  Lines 57 to 61 pass \<^verbatim>\<open>model\<close> and \<^verbatim>\<open>messages\<close> by keyword and then unpack the
  dictionary: when it has one of these two names, Python raises \<open>TypeError\<close> and the
  service is not reached.
\<close>

definition duplicate_keyword :: "'v kwargs \<Rightarrow> bool" where
  "duplicate_keyword kwargs =
     (''model'' \<in> set (map fst kwargs) \<or> ''messages'' \<in> set (map fst kwargs))"

text \<open>What \<^verbatim>\<open>response\<close> returns: the content of the first choice, or the whole result.\<close>

datatype response_value = Reply "string option" | Raw api_response

subsection \<open>The methods\<close>

text \<open>
  \<^verbatim>\<open>change_model\<close>: every method takes the object and returns it with its result, since
  an exception leaves behind the assignments made before it.
\<close>

definition change_model :: "py_value \<Rightarrow> LazyGPT \<Rightarrow> (error + unit) \<times> LazyGPT" where
  "change_model v self =
     (case v of
        PyModel m \<Rightarrow>
          (Inr (), self\<lparr>model := fst (model_value m), rate := snd (model_value m)\<rparr>)
      | _ \<Rightarrow> (Inl InvalidModel, self))"

text \<open>
  The body of \<^verbatim>\<open>__init__\<close>, called with a model; \<open>self\<close> is the object Python has just
  allocated. No object is returned when \<^verbatim>\<open>change_model\<close> raises.
\<close>

definition init :: "LazyGPT \<Rightarrow> py_value \<Rightarrow> string option \<Rightarrow> error + LazyGPT" where
  "init self v sys =
     (case change_model v self of
        (Inl e, _) \<Rightarrow> Inl e
      | (Inr _, s1) \<Rightarrow>
          Inr (s1\<lparr>system := sys, messages := [], cost := StrType,
                  prompt_tokens := 0, completion_tokens := 0\<rparr>))"

text \<open>
  The class statement. Executing it executes the \<^verbatim>\<open>def\<close> of line 40, and that
  evaluates the default of the parameter \<^verbatim>\<open>model\<close>, the expression \<^verbatim>\<open>Model.GPT_3\<close>,
  once: the class object exists only if this returns, and then keeps the value as the
  default. \<open>construct\<close> is the expression \<^verbatim>\<open>LazyGPT(...)\<close> in a program that has executed
  the class statement, with or without a model: nothing of it runs when the class
  statement has raised.
\<close>

record LazyGPT_class =
  init_default_model :: Model

definition class_LazyGPT :: "error + LazyGPT_class" where
  "class_LazyGPT =
     (case Model_getattr ''GPT_3'' of
        Inl e \<Rightarrow> Inl e
      | Inr m \<Rightarrow> Inr \<lparr>init_default_model = m\<rparr>)"

definition construct :: "LazyGPT \<Rightarrow> py_value option \<Rightarrow> string option \<Rightarrow> error + LazyGPT" where
  "construct self v sys =
     (case class_LazyGPT of
        Inl e \<Rightarrow> Inl e
      | Inr cls \<Rightarrow>
          init self (case v of None \<Rightarrow> PyModel (init_default_model cls) | Some x \<Rightarrow> x) sys)"

text \<open>The expression of lines 67 and 68, the divisions first in each product.\<close>

definition cost_expr :: "int \<Rightarrow> int \<Rightarrow> double \<times> double \<Rightarrow> error + double" where
  "cost_expr p c r =
     (case int_truediv p 1000 of
        Inl e \<Rightarrow> Inl e
      | Inr a \<Rightarrow>
          (case int_truediv c 1000 of
             Inl e \<Rightarrow> Inl e
           | Inr b \<Rightarrow> Inr (float_add (float_mul a (fst r)) (float_mul b (snd r)))))"

text \<open>
  \<^verbatim>\<open>response\<close> takes the object and the state of the service and returns both with its
  result. The reply stored at line 71 is the content as the service gave it.
\<close>

definition response ::
  "('v, 'w) create \<Rightarrow> string \<Rightarrow> bool \<Rightarrow> 'v kwargs \<Rightarrow> LazyGPT \<times> 'w
     \<Rightarrow> (error + response_value) \<times> LazyGPT \<times> 'w" where
  "response create prompt just_reply kwargs sw =
     (let self = fst sw; w = snd sw;
          s1 = self\<lparr>messages := messages self @ [(prompt, None)]\<rparr>;
          msgs = compile_messages (messages s1) (system s1)
      in if duplicate_keyword kwargs then (Inl TypeError, s1, w)
         else case create (model s1) msgs kwargs w of
           (Inl e, w') \<Rightarrow> (Inl (ServiceError e), s1, w')
         | (Inr None, w') \<Rightarrow> (Inl RemoteCallFailed, s1, w')
         | (Inr (Some r), w') \<Rightarrow>
             (let s2 = s1\<lparr>prompt_tokens := prompt_tokens s1 + usage_prompt_tokens r\<rparr>;
                  s3 = s2\<lparr>completion_tokens := completion_tokens s2 + usage_completion_tokens r\<rparr>
              in case cost_expr (prompt_tokens s3) (completion_tokens s3) (rate s3) of
                   Inl e \<Rightarrow> (Inl e, s3, w')
                 | Inr c \<Rightarrow>
                     (let s4 = s3\<lparr>cost := Str (''$'' @ format_2f c)\<rparr>
                      in case choices r of
                           [] \<Rightarrow> (Inl IndexError, s4, w')
                         | reply # _ \<Rightarrow>
                             (let n = length (messages s4);
                                  s5 = s4\<lparr>messages :=
                                         (messages s4)[n - 1 := (fst (messages s4 ! (n - 1)), reply)]\<rparr>
                              in (Inr (if just_reply then Reply reply else Raw r), s5, w')))))"

text \<open>
  \<^verbatim>\<open>get_messages\<close>: the loop over the history with the list built so far; an entry is a
  dictionary with the single key \<^verbatim>\<open>"user"\<close> or \<^verbatim>\<open>"assistant"\<close>.
\<close>

type_synonym entry = "string \<times> string option"

fun get_messages_loop :: "exchange list \<Rightarrow> entry list \<Rightarrow> entry list" where
  "get_messages_loop [] acc = acc"
| "get_messages_loop (ex # rest) acc =
     get_messages_loop rest (acc @ [(''user'', Some (fst ex)), (''assistant'', snd ex)])"

definition get_messages :: "LazyGPT \<Rightarrow> entry list \<times> LazyGPT" where
  "get_messages self = (get_messages_loop (messages self) [], self)"

subsection \<open>A sequence of calls of \<open>response\<close>\<close>

text \<open>
  A call is the prompt, the flag and the keyword arguments. \<open>respond_all\<close> makes the
  calls in order against one service and stops at the first one that raises; when all
  return, it gives the results the service reported, in order, with the final object and
  the final state of the service. The result of a call is what the service answers to
  the request of that call in the state it is in.
\<close>

type_synonym 'v call = "string \<times> bool \<times> 'v kwargs"

fun respond_all ::
  "('v, 'w) create \<Rightarrow> 'v call list \<Rightarrow> LazyGPT \<times> 'w \<Rightarrow> (api_response list \<times> LazyGPT \<times> 'w) option" where
  "respond_all create [] sw = Some ([], sw)"
| "respond_all create ((prompt, just_reply, kwargs) # cs) sw =
     (case response create prompt just_reply kwargs sw of
        (Inl e, _) \<Rightarrow> None
      | (Inr _, sw') \<Rightarrow>
          (case fst (create (model (fst sw))
                       (compile_messages (messages (fst sw) @ [(prompt, None)]) (system (fst sw)))
                       kwargs (snd sw)) of
             Inr (Some r) \<Rightarrow>
               (case respond_all create cs sw' of
                  None \<Rightarrow> None
                | Some (rs, sw'') \<Rightarrow> Some (r # rs, sw''))
           | _ \<Rightarrow> None))"

section \<open>One call of \<open>response\<close>\<close>

lemma response_duplicate_keyword:
  "duplicate_keyword kwargs \<Longrightarrow>
   response create prompt just_reply kwargs (s, w)
     = (Inl TypeError, s\<lparr>messages := messages s @ [(prompt, None)]\<rparr>, w)"
  by (simp add: response_def Let_def)

lemma response_service_raised:
  "\<not> duplicate_keyword kwargs \<Longrightarrow>
   create (model s) (compile_messages (messages s @ [(prompt, None)]) (system s)) kwargs w = (Inl e, w')
   \<Longrightarrow> response create prompt just_reply kwargs (s, w)
       = (Inl (ServiceError e), s\<lparr>messages := messages s @ [(prompt, None)]\<rparr>, w')"
  by (simp add: response_def Let_def)

lemma response_no_result:
  "\<not> duplicate_keyword kwargs \<Longrightarrow>
   create (model s) (compile_messages (messages s @ [(prompt, None)]) (system s)) kwargs w = (Inr None, w')
   \<Longrightarrow> response create prompt just_reply kwargs (s, w)
       = (Inl RemoteCallFailed, s\<lparr>messages := messages s @ [(prompt, None)]\<rparr>, w')"
  by (simp add: response_def Let_def)

lemma response_result_not_failed:
  "create (model s) (compile_messages (messages s @ [(prompt, None)]) (system s)) kwargs w = (Inr (Some r), w')
   \<Longrightarrow> fst (response create prompt just_reply kwargs (s, w)) \<noteq> Inl RemoteCallFailed"
  by (auto simp: response_def Let_def cost_expr_def int_truediv_def
           split: option.splits sum.splits list.splits)

lemma response_service_state:
  "snd (snd (response create prompt just_reply kwargs (s, w)))
   = (if duplicate_keyword kwargs then w
      else snd (create (model s) (compile_messages (messages s @ [(prompt, None)]) (system s)) kwargs w))"
  by (auto simp: response_def Let_def split: prod.splits option.splits sum.splits list.splits)

lemma response_failed_iff:
  "(fst (response create prompt just_reply kwargs (s, w)) = Inl RemoteCallFailed)
   = (\<not> duplicate_keyword kwargs
      \<and> fst (create (model s) (compile_messages (messages s @ [(prompt, None)]) (system s)) kwargs w)
          = Inr None)"
proof (cases "duplicate_keyword kwargs")
  case True
  then show ?thesis by (simp add: response_duplicate_keyword)
next
  case False
  obtain a w' where c:
    "create (model s) (compile_messages (messages s @ [(prompt, None)]) (system s)) kwargs w = (a, w')"
    by (cases "create (model s) (compile_messages (messages s @ [(prompt, None)]) (system s)) kwargs w")
  show ?thesis
  proof (cases a)
    case (Inl e)
    with False c show ?thesis by (simp add: response_service_raised)
  next
    case (Inr b)
    show ?thesis
    proof (cases b)
      case None
      with False c Inr show ?thesis by (simp add: response_no_result)
    next
      case (Some r)
      with c Inr have
        "create (model s) (compile_messages (messages s @ [(prompt, None)]) (system s)) kwargs w
           = (Inr (Some r), w')"
        by simp
      from response_result_not_failed [where create = create and s = s and prompt = prompt
          and kwargs = kwargs and w = w and r = r and w' = w' and just_reply = just_reply, OF this]
        c Inr Some
      show ?thesis by simp
    qed
  qed
qed

lemma response_success:
  assumes "response create prompt just_reply kwargs (s, w) = (Inr v, s', w')"
  shows "\<exists>r reply rest c.
           \<not> duplicate_keyword kwargs
         \<and> create (model s) (compile_messages (messages s @ [(prompt, None)]) (system s)) kwargs w
             = (Inr (Some r), w')
         \<and> choices r = reply # rest
         \<and> v = (if just_reply then Reply reply else Raw r)
         \<and> cost_expr (prompt_tokens s + usage_prompt_tokens r)
               (completion_tokens s + usage_completion_tokens r) (rate s) = Inr c
         \<and> s' = s\<lparr>messages := messages s @ [(prompt, reply)],
                  prompt_tokens := prompt_tokens s + usage_prompt_tokens r,
                  completion_tokens := completion_tokens s + usage_completion_tokens r,
                  cost := Str (''$'' @ format_2f c)\<rparr>"
  using assms
  by (auto simp: response_def Let_def split: prod.splits option.splits sum.splits list.splits if_splits)

section \<open>Sequences of calls\<close>

lemma respond_all_invariant:
  "respond_all create calls (s, w) = Some (rs, s', w') \<Longrightarrow>
     length rs = length calls
   \<and> messages s' = messages s @ map (\<lambda>(c, r). (fst c, hd (choices r))) (zip calls rs)
   \<and> (\<forall>r \<in> set rs. choices r \<noteq> [])
   \<and> prompt_tokens s' = prompt_tokens s + sum_list (map usage_prompt_tokens rs)
   \<and> completion_tokens s' = completion_tokens s + sum_list (map usage_completion_tokens rs)
   \<and> model s' = model s \<and> rate s' = rate s \<and> system s' = system s"
proof (induction calls arbitrary: s w rs)
  case Nil
  then show ?case by simp
next
  case (Cons c cs)
  obtain prompt just_reply kwargs where c: "c = (prompt, just_reply, kwargs)"
    by (cases c) auto
  from Cons.prems c obtain v s1 w1 r rs1 where
    step: "response create prompt just_reply kwargs (s, w) = (Inr v, s1, w1)" and
    res: "fst (create (model s) (compile_messages (messages s @ [(prompt, None)]) (system s)) kwargs w)
            = Inr (Some r)" and
    rest: "respond_all create cs (s1, w1) = Some (rs1, s', w')" and
    rs: "rs = r # rs1"
    by (auto split: prod.splits sum.splits option.splits)
  from response_success [OF step] res obtain reply tl c' where
    ch: "choices r = reply # tl" and
    s1: "s1 = s\<lparr>messages := messages s @ [(prompt, reply)],
                  prompt_tokens := prompt_tokens s + usage_prompt_tokens r,
                  completion_tokens := completion_tokens s + usage_completion_tokens r,
                  cost := Str (''$'' @ format_2f c')\<rparr>"
    by auto
  from Cons.IH [OF rest] ch show ?case
    by (simp add: rs c s1)
qed

section \<open>The transcript\<close>

lemma get_messages_loop_eq:
  "get_messages_loop xs acc
   = acc @ concat (map (\<lambda>ex. [(''user'', Some (fst ex)), (''assistant'', snd ex)]) xs)"
  by (induction xs arbitrary: acc) simp_all

lemma concat_pairs_length:
  "length (concat (map (\<lambda>x. [f x, g x]) xs)) = 2 * length xs"
  by (induction xs) simp_all

lemma concat_pairs_nth:
  "i < length xs \<Longrightarrow>
     concat (map (\<lambda>x. [f x, g x]) xs) ! (2 * i) = f (xs ! i)
   \<and> concat (map (\<lambda>x. [f x, g x]) xs) ! Suc (2 * i) = g (xs ! i)"
proof (induction xs arbitrary: i)
  case Nil
  then show ?case by simp
next
  case (Cons x xs)
  show ?case
  proof (cases i)
    case 0
    then show ?thesis by simp
  next
    case (Suc j)
    with Cons.prems have "j < length xs" by simp
    from Cons.IH [OF this] Suc show ?thesis by simp
  qed
qed

text \<open>
  Claim C7. For every session, \<^verbatim>\<open>get_messages\<close> leaves the session as it is and returns
  exactly twice as many entries as the history has exchanges: the entries at positions
  \<open>2i\<close> and \<open>2i + 1\<close> are the user entry with the prompt and the assistant entry with
  the reply of the \<open>i\<close>-th exchange, so the first entry is a user entry, the roles
  alternate, and an exchange whose reply is unset still gives an assistant entry, with
  \<open>None\<close> as content.
\<close>

theorem get_messages_transcript:
  "snd (get_messages s) = s
   \<and> length (fst (get_messages s)) = 2 * length (messages s)
   \<and> (\<forall>i < length (messages s).
         fst (get_messages s) ! (2 * i) = (''user'', Some (fst (messages s ! i)))
       \<and> fst (get_messages s) ! (2 * i + 1) = (''assistant'', snd (messages s ! i)))"
  by (simp add: get_messages_def get_messages_loop_eq concat_pairs_length concat_pairs_nth)

theorem get_messages_transcript_witness:
  "fst (get_messages \<lparr>model = ''gpt-4'', rate = (0, 0), system = None,
        messages = [(''a'', Some ''b''), (''c'', None)], cost = StrType,
        prompt_tokens = 0, completion_tokens = 0\<rparr>)
   = [(''user'', Some ''a''), (''assistant'', Some ''b''), (''user'', Some ''c''), (''assistant'', None)]
   \<and> fst (get_messages \<lparr>model = ''gpt-4'', rate = (0, 0), system = None,
        messages = [(''a'', Some ''b''), (''c'', None)], cost = StrType,
        prompt_tokens = 0, completion_tokens = 0\<rparr>) ! (2 * 1 + 1) = (''assistant'', None)"
  using get_messages_transcript [of "\<lparr>model = ''gpt-4'', rate = (0, 0), system = None,
        messages = [(''a'', Some ''b''), (''c'', None)], cost = StrType,
        prompt_tokens = 0, completion_tokens = 0\<rparr>"]
  by (simp add: get_messages_def)

section \<open>Failure of the remote call, the request, construction and the model\<close>

text \<open>
  Claim C3. \<^verbatim>\<open>response\<close> raises the exception of a failed remote call exactly when the
  call of the external service is made and yields no result; the exchange appended at
  the start of the call is then still the last of the history, its reply unset. Nothing
  is retried: whatever the outcome, the service is left in the state that one request
  puts it in (and untouched when Python refuses the call for a repeated keyword).
\<close>

theorem response_raises_remote_call_failed:
  "((fst (response create prompt just_reply kwargs (s, w)) = Inl RemoteCallFailed)
      = (\<not> duplicate_keyword kwargs
         \<and> fst (create (model s) (compile_messages (messages s @ [(prompt, None)]) (system s)) kwargs w)
             = Inr None))
   \<and> (fst (response create prompt just_reply kwargs (s, w)) = Inl RemoteCallFailed \<longrightarrow>
        messages (fst (snd (response create prompt just_reply kwargs (s, w))))
          = messages s @ [(prompt, None)])
   \<and> snd (snd (response create prompt just_reply kwargs (s, w)))
       = (if duplicate_keyword kwargs then w
          else snd (create (model s) (compile_messages (messages s @ [(prompt, None)]) (system s))
                      kwargs w))"
proof (intro conjI impI)
  show "(fst (response create prompt just_reply kwargs (s, w)) = Inl RemoteCallFailed)
      = (\<not> duplicate_keyword kwargs
         \<and> fst (create (model s) (compile_messages (messages s @ [(prompt, None)]) (system s)) kwargs w)
             = Inr None)"
    by (rule response_failed_iff)
next
  assume "fst (response create prompt just_reply kwargs (s, w)) = Inl RemoteCallFailed"
  then have nd: "\<not> duplicate_keyword kwargs" and
    "fst (create (model s) (compile_messages (messages s @ [(prompt, None)]) (system s)) kwargs w)
       = Inr None"
    by (simp_all add: response_failed_iff)
  then obtain w' where
    "create (model s) (compile_messages (messages s @ [(prompt, None)]) (system s)) kwargs w
       = (Inr None, w')"
    by (cases "create (model s) (compile_messages (messages s @ [(prompt, None)]) (system s)) kwargs w")
       simp
  with nd show "messages (fst (snd (response create prompt just_reply kwargs (s, w))))
          = messages s @ [(prompt, None)]"
    by (simp add: response_no_result)
next
  show "snd (snd (response create prompt just_reply kwargs (s, w)))
       = (if duplicate_keyword kwargs then w
          else snd (create (model s) (compile_messages (messages s @ [(prompt, None)]) (system s))
                      kwargs w))"
    by (rule response_service_state)
qed

text \<open>
  Claim C10. When \<^verbatim>\<open>response\<close> raises the exception of a failed remote call, the two
  token counters and the cost are what they were before the call: the object differs
  from the one before the call in the appended pending exchange only.
\<close>

theorem response_failure_frame:
  assumes "fst (response create prompt just_reply kwargs (s, w)) = Inl RemoteCallFailed"
  shows "fst (snd (response create prompt just_reply kwargs (s, w)))
           = s\<lparr>messages := messages s @ [(prompt, None)]\<rparr>
       \<and> prompt_tokens (fst (snd (response create prompt just_reply kwargs (s, w)))) = prompt_tokens s
       \<and> completion_tokens (fst (snd (response create prompt just_reply kwargs (s, w))))
           = completion_tokens s
       \<and> cost (fst (snd (response create prompt just_reply kwargs (s, w)))) = cost s"
proof -
  from assms have nd: "\<not> duplicate_keyword kwargs" and
    "fst (create (model s) (compile_messages (messages s @ [(prompt, None)]) (system s)) kwargs w)
       = Inr None"
    by (simp_all add: response_failed_iff)
  then obtain w' where
    "create (model s) (compile_messages (messages s @ [(prompt, None)]) (system s)) kwargs w
       = (Inr None, w')"
    by (cases "create (model s) (compile_messages (messages s @ [(prompt, None)]) (system s)) kwargs w")
       simp
  with nd show ?thesis by (simp add: response_no_result)
qed

text \<open>
  Claim C5. The message list \<^verbatim>\<open>response\<close> sends is: the system message when a system
  prompt is set, then for each exchange of the history in order a user message with its
  prompt and, when its reply is set, an assistant message with the reply, then the one
  user message of the pending exchange. That this list is built and sent is stated
  through the service, whatever it is: unless a keyword is repeated, the state
  \<^verbatim>\<open>response\<close> leaves the service in is the state that the request with the model
  identifier, this list and the keyword arguments puts it in, and the call fails
  exactly when that request has no result. With a repeated keyword the pending exchange
  is appended and no request is made.
\<close>

theorem response_outbound_messages:
  "(let out = (case system s of None \<Rightarrow> [] | Some sp \<Rightarrow> [(System, sp)])
              @ concat (map (\<lambda>(p, r). (User, p) # (case r of None \<Rightarrow> [] | Some a \<Rightarrow> [(Assistant, a)]))
                          (messages s))
              @ [(User, prompt)]
    in (\<not> duplicate_keyword kwargs \<longrightarrow>
          snd (snd (response create prompt just_reply kwargs (s, w)))
            = snd (create (model s) out kwargs w)
        \<and> (fst (response create prompt just_reply kwargs (s, w)) = Inl RemoteCallFailed)
            = (fst (create (model s) out kwargs w) = Inr None))
     \<and> (duplicate_keyword kwargs \<longrightarrow>
          response create prompt just_reply kwargs (s, w)
            = (Inl TypeError, s\<lparr>messages := messages s @ [(prompt, None)]\<rparr>, w)))"
proof -
  define out where "out = (case system s of None \<Rightarrow> [] | Some sp \<Rightarrow> [(System, sp)])
              @ concat (map (\<lambda>(p, r). (User, p) # (case r of None \<Rightarrow> [] | Some a \<Rightarrow> [(Assistant, a)]))
                          (messages s))
              @ [(User, prompt)]"
  have em: "exchange_messages = (\<lambda>(p, r). (User, p) # (case r of None \<Rightarrow> [] | Some a \<Rightarrow> [(Assistant, a)]))"
    by (auto simp: fun_eq_iff split: option.splits)
  have out: "compile_messages (messages s @ [(prompt, None)]) (system s) = out"
    by (simp add: compile_messages_def out_def em)
  have a: "snd (snd (response create prompt just_reply kwargs (s, w)))
            = snd (create (model s) out kwargs w)" if "\<not> duplicate_keyword kwargs"
    using that by (simp add: response_service_state out)
  have b: "(fst (response create prompt just_reply kwargs (s, w)) = Inl RemoteCallFailed)
            = (fst (create (model s) out kwargs w) = Inr None)" if "\<not> duplicate_keyword kwargs"
    using that by (simp add: response_failed_iff out)
  have c: "response create prompt just_reply kwargs (s, w)
            = (Inl TypeError, s\<lparr>messages := messages s @ [(prompt, None)]\<rparr>, w)"
    if "duplicate_keyword kwargs"
    using that by (rule response_duplicate_keyword)
  from a b c show ?thesis
    unfolding Let_def out_def by blast
qed

theorem response_raises_remote_call_failed_witness:
  "fst (response (\<lambda>m ms k n. (Inr None, n + 1)) ''hi'' True ([] :: (string \<times> int) list)
         (\<lparr>model = ''gpt-4'', rate = (0, 0), system = None, messages = [], cost = StrType,
           prompt_tokens = 0, completion_tokens = 0\<rparr>, 0 :: int)) = Inl RemoteCallFailed
   \<and> messages (fst (snd (response (\<lambda>m ms k n. (Inr None, n + 1)) ''hi'' True
         ([] :: (string \<times> int) list)
         (\<lparr>model = ''gpt-4'', rate = (0, 0), system = None, messages = [], cost = StrType,
           prompt_tokens = 0, completion_tokens = 0\<rparr>, 0 :: int)))) = [(''hi'', None)]
   \<and> snd (snd (response (\<lambda>m ms k n. (Inr None, n + 1)) ''hi'' True
         ([] :: (string \<times> int) list)
         (\<lparr>model = ''gpt-4'', rate = (0, 0), system = None, messages = [], cost = StrType,
           prompt_tokens = 0, completion_tokens = 0\<rparr>, 0 :: int))) = 1"
proof -
  note inst = response_raises_remote_call_failed [of "\<lambda>m ms k n. (Inr None, n + 1)" "''hi''" True
         "[] :: (string \<times> int) list"
         "\<lparr>model = ''gpt-4'', rate = (0, 0), system = None, messages = [], cost = StrType,
           prompt_tokens = 0, completion_tokens = 0\<rparr>" "0 :: int"]
  from inst [THEN conjunct1] have failed:
    "fst (response (\<lambda>m ms k n. (Inr None, n + 1)) ''hi'' True ([] :: (string \<times> int) list)
         (\<lparr>model = ''gpt-4'', rate = (0, 0), system = None, messages = [], cost = StrType,
           prompt_tokens = 0, completion_tokens = 0\<rparr>, 0 :: int)) = Inl RemoteCallFailed"
    by (simp add: duplicate_keyword_def)
  from inst [THEN conjunct2, THEN conjunct1] failed have pending:
    "messages (fst (snd (response (\<lambda>m ms k n. (Inr None, n + 1)) ''hi'' True
         ([] :: (string \<times> int) list)
         (\<lparr>model = ''gpt-4'', rate = (0, 0), system = None, messages = [], cost = StrType,
           prompt_tokens = 0, completion_tokens = 0\<rparr>, 0 :: int)))) = [(''hi'', None)]"
    by simp
  from inst [THEN conjunct2, THEN conjunct2] have once:
    "snd (snd (response (\<lambda>m ms k n. (Inr None, n + 1)) ''hi'' True
         ([] :: (string \<times> int) list)
         (\<lparr>model = ''gpt-4'', rate = (0, 0), system = None, messages = [], cost = StrType,
           prompt_tokens = 0, completion_tokens = 0\<rparr>, 0 :: int))) = 1"
    by (simp add: duplicate_keyword_def)
  from failed pending once show ?thesis by (intro conjI)
qed

theorem response_failure_frame_witness:
  "fst (response (\<lambda>m ms k n. (Inr None, n + 1)) ''hi'' True ([] :: (string \<times> int) list)
         (\<lparr>model = ''gpt-4'', rate = (0, 0), system = None, messages = [(''a'', Some ''b'')],
           cost = Str ''$0.01'', prompt_tokens = 7, completion_tokens = 9\<rparr>, 0 :: int))
     = Inl RemoteCallFailed
   \<and> fst (snd (response (\<lambda>m ms k n. (Inr None, n + 1)) ''hi'' True ([] :: (string \<times> int) list)
         (\<lparr>model = ''gpt-4'', rate = (0, 0), system = None, messages = [(''a'', Some ''b'')],
           cost = Str ''$0.01'', prompt_tokens = 7, completion_tokens = 9\<rparr>, 0 :: int)))
     = \<lparr>model = ''gpt-4'', rate = (0, 0), system = None,
        messages = [(''a'', Some ''b''), (''hi'', None)],
        cost = Str ''$0.01'', prompt_tokens = 7, completion_tokens = 9\<rparr>"
proof -
  have h: "fst (response (\<lambda>m ms k n. (Inr None, n + 1)) ''hi'' True ([] :: (string \<times> int) list)
         (\<lparr>model = ''gpt-4'', rate = (0, 0), system = None, messages = [(''a'', Some ''b'')],
           cost = Str ''$0.01'', prompt_tokens = 7, completion_tokens = 9\<rparr>, 0 :: int))
     = Inl RemoteCallFailed"
    by (simp add: response_def duplicate_keyword_def)
  from response_failure_frame [OF h] h show ?thesis by simp
qed

theorem response_outbound_messages_witness:
  "snd (snd (response
         (\<lambda>m ms k log. (Inr (Some \<lparr>usage_prompt_tokens = 1, usage_completion_tokens = 1,
                                    choices = [Some ''x'']\<rparr>), log @ [(m, ms, k)]))
         ''hi'' True [(''temperature'', 1 :: int)]
         (\<lparr>model = ''gpt-4'', rate = (0, 0), system = Some ''sys'',
           messages = [(''a'', Some ''b''), (''c'', None)],
           cost = StrType, prompt_tokens = 0, completion_tokens = 0\<rparr>, [])))
   = [(''gpt-4'',
       [(System, ''sys''), (User, ''a''), (Assistant, ''b''), (User, ''c''), (User, ''hi'')],
       [(''temperature'', 1)])]
   \<and> response
         (\<lambda>m ms k log. (Inr (Some \<lparr>usage_prompt_tokens = 1, usage_completion_tokens = 1,
                                    choices = [Some ''x'']\<rparr>), log @ [(m, ms, k)]))
         ''hi'' True [(''model'', 1 :: int)]
         (\<lparr>model = ''gpt-4'', rate = (0, 0), system = Some ''sys'',
           messages = [(''a'', Some ''b''), (''c'', None)],
           cost = StrType, prompt_tokens = 0, completion_tokens = 0\<rparr>, [])
     = (Inl TypeError,
        \<lparr>model = ''gpt-4'', rate = (0, 0), system = Some ''sys'',
         messages = [(''a'', Some ''b''), (''c'', None), (''hi'', None)],
         cost = StrType, prompt_tokens = 0, completion_tokens = 0\<rparr>, [])"
  using response_outbound_messages [of
         "\<lparr>model = ''gpt-4'', rate = (0, 0), system = Some ''sys'',
           messages = [(''a'', Some ''b''), (''c'', None)],
           cost = StrType, prompt_tokens = 0, completion_tokens = 0\<rparr>"
         "''hi''" "[(''temperature'', 1 :: int)]"
         "\<lambda>m ms k log. (Inr (Some \<lparr>usage_prompt_tokens = 1, usage_completion_tokens = 1,
                                    choices = [Some ''x'']\<rparr>), log @ [(m, ms, k)])"
         True "[]"]
        response_outbound_messages [of
         "\<lparr>model = ''gpt-4'', rate = (0, 0), system = Some ''sys'',
           messages = [(''a'', Some ''b''), (''c'', None)],
           cost = StrType, prompt_tokens = 0, completion_tokens = 0\<rparr>"
         "''hi''" "[(''model'', 1 :: int)]"
         "\<lambda>m ms k log. (Inr (Some \<lparr>usage_prompt_tokens = 1, usage_completion_tokens = 1,
                                    choices = [Some ''x'']\<rparr>), log @ [(m, ms, k)])"
         True "[]"]
  by (simp add: Let_def duplicate_keyword_def)

lemma change_model_valid:
  "change_model (PyModel m) s = (Inr (), s\<lparr>model := fst (model_value m), rate := snd (model_value m)\<rparr>)"
  by (simp add: change_model_def)

lemma change_model_invalid:
  "\<not> isinstance_Model v \<Longrightarrow> change_model v s = (Inl InvalidModel, s)"
  by (cases v) (simp_all add: change_model_def)

lemma isinstance_Model_iff: "isinstance_Model v = (\<exists>m. v = PyModel m)"
  by (cases v) simp_all

text \<open>
  Claim C4. \<^verbatim>\<open>__init__\<close> called with a model and a system prompt raises the
  \<open>ValueError\<close> of an invalid model when the model is not an instance of \<open>Model\<close>, and
  otherwise gives an object with an empty history and both token counters zero.
\<close>

theorem init_invalid_model_or_fresh:
  "(\<not> isinstance_Model v \<longrightarrow> init self v sys = Inl InvalidModel)
   \<and> (isinstance_Model v \<longrightarrow>
        (\<exists>s. init self v sys = Inr s \<and> messages s = []
             \<and> prompt_tokens s = 0 \<and> completion_tokens s = 0 \<and> system s = sys))"
proof (intro conjI impI)
  assume "\<not> isinstance_Model v"
  then show "init self v sys = Inl InvalidModel"
    by (simp add: init_def change_model_invalid)
next
  assume "isinstance_Model v"
  then obtain m where "v = PyModel m"
    by (auto simp: isinstance_Model_iff)
  then show "\<exists>s. init self v sys = Inr s \<and> messages s = []
             \<and> prompt_tokens s = 0 \<and> completion_tokens s = 0 \<and> system s = sys"
    by (simp add: init_def change_model_valid)
qed

theorem init_invalid_model_or_fresh_witness:
  "init \<lparr>model = ''x'', rate = (1, 1), system = Some ''y'', messages = [(''a'', None)],
         cost = Str ''z'', prompt_tokens = 5, completion_tokens = 6\<rparr> (PyStr ''gpt-4'') None
     = Inl InvalidModel
   \<and> (\<exists>s. init \<lparr>model = ''x'', rate = (1, 1), system = Some ''y'', messages = [(''a'', None)],
         cost = Str ''z'', prompt_tokens = 5, completion_tokens = 6\<rparr> (PyModel GPT3_5) None = Inr s
        \<and> messages s = [] \<and> prompt_tokens s = 0 \<and> completion_tokens s = 0 \<and> system s = None)"
  using init_invalid_model_or_fresh [of "PyStr ''gpt-4''"
           "\<lparr>model = ''x'', rate = (1, 1), system = Some ''y'', messages = [(''a'', None)],
             cost = Str ''z'', prompt_tokens = 5, completion_tokens = 6\<rparr>" None]
        init_invalid_model_or_fresh [of "PyModel GPT3_5"
           "\<lparr>model = ''x'', rate = (1, 1), system = Some ''y'', messages = [(''a'', None)],
             cost = Str ''z'', prompt_tokens = 5, completion_tokens = 6\<rparr>" None]
  by simp

text \<open>
  Claim C6. For every member of \<open>Model\<close>, \<^verbatim>\<open>change_model\<close> returns normally, sets the
  model identifier and the rate pair to those of the member, and leaves the system
  prompt, the history, both token counters and the cost as they were.
\<close>

theorem change_model_frame:
  "\<exists>s'. change_model (PyModel m) s = (Inr (), s')
      \<and> model s' = fst (model_value m)
      \<and> rate s' = snd (model_value m)
      \<and> system s' = system s
      \<and> messages s' = messages s
      \<and> prompt_tokens s' = prompt_tokens s
      \<and> completion_tokens s' = completion_tokens s
      \<and> cost s' = cost s"
  by (simp add: change_model_valid)

text \<open>
  Claim C8. After \<^verbatim>\<open>__init__\<close> with a member of \<open>Model\<close>, \<^verbatim>\<open>change_model\<close> with the same
  member changes nothing: the model identifier and the rate pair are those that
  \<^verbatim>\<open>__init__\<close> set.
\<close>

theorem init_change_model_same:
  assumes "init self (PyModel m) sys = Inr s"
  shows "change_model (PyModel m) s = (Inr (), s)
       \<and> model (snd (change_model (PyModel m) s)) = model s
       \<and> rate (snd (change_model (PyModel m) s)) = rate s
       \<and> model s = fst (model_value m) \<and> rate s = snd (model_value m)"
  using assms by (auto simp: init_def change_model_valid)

theorem init_change_model_same_witness:
  "init \<lparr>model = ''x'', rate = (1, 1), system = Some ''y'', messages = [(''a'', None)],
         cost = Str ''z'', prompt_tokens = 5, completion_tokens = 6\<rparr> (PyModel GPT4) None
     = Inr \<lparr>model = ''gpt-4'', rate = (float_literal (3 / 100), float_literal (6 / 100)),
            system = None, messages = [], cost = StrType, prompt_tokens = 0, completion_tokens = 0\<rparr>
   \<and> change_model (PyModel GPT4)
        \<lparr>model = ''gpt-4'', rate = (float_literal (3 / 100), float_literal (6 / 100)),
         system = None, messages = [], cost = StrType, prompt_tokens = 0, completion_tokens = 0\<rparr>
     = (Inr (), \<lparr>model = ''gpt-4'', rate = (float_literal (3 / 100), float_literal (6 / 100)),
         system = None, messages = [], cost = StrType, prompt_tokens = 0, completion_tokens = 0\<rparr>)"
proof -
  have h: "init \<lparr>model = ''x'', rate = (1, 1), system = Some ''y'', messages = [(''a'', None)],
         cost = Str ''z'', prompt_tokens = 5, completion_tokens = 6\<rparr> (PyModel GPT4) None
     = Inr \<lparr>model = ''gpt-4'', rate = (float_literal (3 / 100), float_literal (6 / 100)),
            system = None, messages = [], cost = StrType, prompt_tokens = 0, completion_tokens = 0\<rparr>"
    by (simp add: init_def change_model_def)
  from init_change_model_same [OF h] h show ?thesis by simp
qed

lemma Model_UNIV: "UNIV = {GPT4, GPT4_32K, GPT3_5}"
proof -
  have "x \<in> {GPT4, GPT4_32K, GPT3_5}" for x :: Model
    by (cases x) simp_all
  then show ?thesis by blast
qed

lemma Model_getattr_GPT_3: "Model_getattr ''GPT_3'' = Inl (AttributeError ''GPT_3'')"
  by (simp add: Model_getattr_def Model_members_def)

lemma class_LazyGPT_raises: "class_LazyGPT = Inl (AttributeError ''GPT_3'')"
  by (simp add: class_LazyGPT_def Model_getattr_GPT_3)

text \<open>
  Claim C9. The members of \<open>Model\<close> are \<open>GPT4\<close>, \<open>GPT4_32K\<close> and \<open>GPT3_5\<close> and no
  other; the default of the parameter \<^verbatim>\<open>model\<close>, \<^verbatim>\<open>Model.GPT_3\<close>, raises
  \<open>AttributeError\<close>. It is evaluated when the class statement is executed, so the class
  statement itself raises, and no construction succeeds, whether it passes a model or
  not: what it raises is the error of the class statement.
\<close>

theorem default_model_attribute_error:
  "map fst Model_members = [''GPT4'', ''GPT4_32K'', ''GPT3_5'']
   \<and> set (map snd Model_members) = UNIV
   \<and> Model_getattr ''GPT_3'' = Inl (AttributeError ''GPT_3'')
   \<and> class_LazyGPT = Inl (AttributeError ''GPT_3'')
   \<and> construct self None sys = Inl (AttributeError ''GPT_3'')
   \<and> construct self v sys = Inl (AttributeError ''GPT_3'')"
proof (intro conjI)
  show "map fst Model_members = [''GPT4'', ''GPT4_32K'', ''GPT3_5'']"
    by (simp add: Model_members_def)
  show "set (map snd Model_members) = UNIV"
    by (simp add: Model_members_def Model_UNIV)
  show "Model_getattr ''GPT_3'' = Inl (AttributeError ''GPT_3'')"
    by (rule Model_getattr_GPT_3)
  show "class_LazyGPT = Inl (AttributeError ''GPT_3'')"
    by (rule class_LazyGPT_raises)
  show "construct self None sys = Inl (AttributeError ''GPT_3'')"
    by (simp add: construct_def class_LazyGPT_raises)
  show "construct self v sys = Inl (AttributeError ''GPT_3'')"
    by (simp add: construct_def class_LazyGPT_raises)
qed

section \<open>The cost\<close>

lemma int_truediv_Inr:
  "int_truediv p 1000 = Inr a \<Longrightarrow> a = round_double (of_int p / 1000)"
  by (simp add: int_truediv_def Let_def split: if_splits)

lemma cost_expr_Inr:
  assumes "cost_expr p c r = Inr x"
  shows "x = round_double (round_double (round_double (of_int p / 1000) * fst r)
                         + round_double (round_double (of_int c / 1000) * snd r))"
proof -
  from assms obtain a b where
    a: "int_truediv p 1000 = Inr a" and b: "int_truediv c 1000 = Inr b" and
    x: "x = float_add (float_mul a (fst r)) (float_mul b (snd r))"
    by (auto simp: cost_expr_def split: sum.splits)
  from int_truediv_Inr [OF a] int_truediv_Inr [OF b] x show ?thesis
    by (simp add: float_add_def float_mul_def)
qed

lemma response_cost:
  assumes "response create prompt just_reply kwargs (s, w) = (Inr v, s', w')"
  shows "cost s' = Str (''$'' @ format_2f
           (round_double (round_double (round_double (of_int (prompt_tokens s') / 1000) * fst (rate s))
                        + round_double (round_double (of_int (completion_tokens s') / 1000) * snd (rate s)))))"
  using response_success [OF assms] by (auto dest!: cost_expr_Inr)

text \<open>
  The doubles of the example: the literal \<^verbatim>\<open>0.03\<close>, and the sum that the code computes
  from 1500 and 500 tokens at the rates of \<open>GPT4\<close>, which lies below 0.075.
\<close>

lemma example_doubles:
  "float_literal (3 / 100) = 1080863910568919 / 36028797018963968
   \<and> round_double (round_double (round_double (1500 / 1000) * float_literal (3 / 100))
                  + round_double (round_double (500 / 1000) * float_literal (6 / 100)))
     = 5404319552844595 / 72057594037927936
   \<and> (5404319552844595 / 72057594037927936 :: rat) < 75 / 1000"
  by code_simp

lemma example_binary64_string:
  "format_2f (round_double (round_double (round_double (1500 / 1000) * float_literal (3 / 100))
                          + round_double (round_double (500 / 1000) * float_literal (6 / 100))))
   = ''0.07''"
  by code_simp

lemma example_exact_string:
  "format_2f (1500 / 1000 * (3 / 100) + 500 / 1000 * (6 / 100)) = ''0.08''"
  by code_simp

lemma example_response:
  "response
     (\<lambda>m ms k w. (Inr (Some \<lparr>usage_prompt_tokens = 1500, usage_completion_tokens = 500,
                                choices = [Some ''hello'']\<rparr>), w))
     ''hi'' True ([] :: (string \<times> int) list)
     (\<lparr>model = ''gpt-4'', rate = (float_literal (3 / 100), float_literal (6 / 100)), system = None,
      messages = [], cost = StrType, prompt_tokens = 0, completion_tokens = 0\<rparr>, ())
   = (Inr (Reply (Some ''hello'')),
      \<lparr>model = ''gpt-4'', rate = (float_literal (3 / 100), float_literal (6 / 100)), system = None,
       messages = [(''hi'', Some ''hello'')], cost = Str ''$0.07'',
       prompt_tokens = 1500, completion_tokens = 500\<rparr>, ())"
  by code_simp

text \<open>
  Claim C1, as amended. After every call of \<^verbatim>\<open>response\<close> that returns, on an object whose
  rates are those of a member of \<open>Model\<close>, the cost is the dollar sign followed by the
  two-decimal rendering of the binary64 value that lines 67 and 68 compute: each
  cumulative counter divided by 1000, multiplied by its rate, the two products added,
  every operation rounded to the nearest double. It is a function of the two cumulative
  counters and the model alone. With 1500 prompt tokens, 500 completion tokens and the
  rates of \<open>GPT4\<close> it is \<^verbatim>\<open>$0.07\<close>: the computed sum is the double just below 0.075.
\<close>

theorem response_cost_binary64:
  assumes "response create prompt just_reply kwargs (s, w) = (Inr v, s', w')"
      and "rate s = snd (model_value m)"
  shows "cost s' = Str (''$'' @ format_2f
           (round_double
              (round_double (round_double (of_int (prompt_tokens s') / 1000) * fst (snd (model_value m)))
             + round_double (round_double (of_int (completion_tokens s') / 1000) * snd (snd (model_value m))))))
       \<and> (m = GPT4 \<and> prompt_tokens s' = 1500 \<and> completion_tokens s' = 500
            \<longrightarrow> cost s' = Str ''$0.07'')"
proof -
  have formula: "cost s' = Str (''$'' @ format_2f
           (round_double
              (round_double (round_double (of_int (prompt_tokens s') / 1000) * fst (snd (model_value m)))
             + round_double (round_double (of_int (completion_tokens s') / 1000) * snd (snd (model_value m))))))"
    using response_cost [OF assms(1)] assms(2) by simp
  have "cost s' = Str ''$0.07''"
    if "m = GPT4" and "prompt_tokens s' = 1500" and "completion_tokens s' = 500"
  proof -
    from formula that have "cost s' = Str (''$'' @ format_2f
           (round_double (round_double (round_double (1500 / 1000) * float_literal (3 / 100))
                        + round_double (round_double (500 / 1000) * float_literal (6 / 100)))))"
      by simp
    then show ?thesis by (simp only: example_binary64_string) simp
  qed
  with formula show ?thesis by blast
qed

theorem response_cost_binary64_witness:
  "response
     (\<lambda>m ms k w. (Inr (Some \<lparr>usage_prompt_tokens = 1500, usage_completion_tokens = 500,
                                choices = [Some ''hello'']\<rparr>), w))
     ''hi'' True ([] :: (string \<times> int) list)
     (\<lparr>model = ''gpt-4'', rate = (float_literal (3 / 100), float_literal (6 / 100)), system = None,
      messages = [], cost = StrType, prompt_tokens = 0, completion_tokens = 0\<rparr>, ())
   = (Inr (Reply (Some ''hello'')),
      \<lparr>model = ''gpt-4'', rate = (float_literal (3 / 100), float_literal (6 / 100)), system = None,
       messages = [(''hi'', Some ''hello'')], cost = Str ''$0.07'',
       prompt_tokens = 1500, completion_tokens = 500\<rparr>, ())
   \<and> (float_literal (3 / 100), float_literal (6 / 100)) = snd (model_value GPT4)
   \<and> cost \<lparr>model = ''gpt-4'', rate = (float_literal (3 / 100), float_literal (6 / 100)), system = None,
       messages = [(''hi'', Some ''hello'')], cost = Str ''$0.07'',
       prompt_tokens = 1500, completion_tokens = 500\<rparr> = Str ''$0.07''"
proof -
  have r: "rate \<lparr>model = ''gpt-4'', rate = (float_literal (3 / 100), float_literal (6 / 100)), system = None,
      messages = [], cost = StrType, prompt_tokens = 0, completion_tokens = 0\<rparr> = snd (model_value GPT4)"
    by simp
  from response_cost_binary64 [OF example_response r] example_response show ?thesis
    by simp
qed

text \<open>
  The example of claim C1 as the claim states it: the call returns, and the cost it
  leaves is not \<^verbatim>\<open>$0.08\<close>, which is what the formula gives in exact arithmetic.
\<close>

theorem response_cost_example_counterexample:
  "fst (response
     (\<lambda>m ms k w. (Inr (Some \<lparr>usage_prompt_tokens = 1500, usage_completion_tokens = 500,
                                choices = [Some ''hello'']\<rparr>), w))
     ''hi'' True ([] :: (string \<times> int) list)
     (\<lparr>model = ''gpt-4'', rate = (float_literal (3 / 100), float_literal (6 / 100)), system = None,
      messages = [], cost = StrType, prompt_tokens = 0, completion_tokens = 0\<rparr>, ())) = Inr (Reply (Some ''hello''))
   \<and> cost (fst (snd (response
     (\<lambda>m ms k w. (Inr (Some \<lparr>usage_prompt_tokens = 1500, usage_completion_tokens = 500,
                                choices = [Some ''hello'']\<rparr>), w))
     ''hi'' True ([] :: (string \<times> int) list)
     (\<lparr>model = ''gpt-4'', rate = (float_literal (3 / 100), float_literal (6 / 100)), system = None,
      messages = [], cost = StrType, prompt_tokens = 0, completion_tokens = 0\<rparr>, ())))) \<noteq> Str ''$0.08''
   \<and> ''$'' @ format_2f (1500 / 1000 * (3 / 100) + 500 / 1000 * (6 / 100)) = ''$0.08''"
  by (simp only: example_response example_exact_string) simp

section \<open>Counters and history after a sequence of calls\<close>

lemma init_fresh:
  "init self (PyModel m) sys = Inr s0 \<Longrightarrow>
     messages s0 = [] \<and> prompt_tokens s0 = 0 \<and> completion_tokens s0 = 0"
  by (auto simp: init_def change_model_def)

lemma map_fst_pairs:
  "length xs = length ys \<Longrightarrow> map fst (map (\<lambda>(c, r). (f c, g r)) (zip xs ys)) = map f xs"
  by (induction xs ys rule: list_induct2) simp_all

lemma map_snd_pairs:
  "length xs = length ys \<Longrightarrow> map snd (map (\<lambda>(c, r). (f c, g r)) (zip xs ys)) = map g ys"
  by (induction xs ys rule: list_induct2) simp_all

text \<open>
  Claim C2, as amended. After any sequence of calls of \<^verbatim>\<open>response\<close> that all return, made
  on a freshly constructed object, the history has exactly as many exchanges as calls
  were made, with the prompts of the calls in order; every result of the service has a
  first choice, and the reply of each exchange is the content of the first choice of its
  call as the service gave it, so every reply is set when every such content is; each
  token counter is the sum of the counts that the service reported in the calls.
\<close>

theorem respond_all_history_and_counters:
  assumes "init self (PyModel m) sys = Inr s0"
      and "respond_all create calls (s0, w) = Some (rs, s, w')"
  shows "length (messages s) = length calls
       \<and> length rs = length calls
       \<and> map fst (messages s) = map fst calls
       \<and> (\<forall>r \<in> set rs. choices r \<noteq> [])
       \<and> map snd (messages s) = map (\<lambda>r. hd (choices r)) rs
       \<and> ((\<forall>r \<in> set rs. hd (choices r) \<noteq> None) \<longrightarrow> (\<forall>ex \<in> set (messages s). snd ex \<noteq> None))
       \<and> prompt_tokens s = sum_list (map usage_prompt_tokens rs)
       \<and> completion_tokens s = sum_list (map usage_completion_tokens rs)"
proof -
  from init_fresh [OF assms(1)] have
    fresh: "messages s0 = []" "prompt_tokens s0 = 0" "completion_tokens s0 = 0"
    by simp_all
  note inv = respond_all_invariant [OF assms(2)]
  from inv have len_rs: "length rs = length calls"
    by simp
  from inv fresh have msgs:
    "messages s = map (\<lambda>(c, r). (fst c, hd (choices r))) (zip calls rs)"
    by simp
  from len_rs have prompts: "map fst (messages s) = map fst calls"
    unfolding msgs by (simp only: map_fst_pairs)
  from len_rs have replies: "map snd (messages s) = map (\<lambda>r. hd (choices r)) rs"
    unfolding msgs by (simp only: map_snd_pairs)
  from prompts have "length (map fst (messages s)) = length (map fst calls)"
    by simp
  then have len: "length (messages s) = length calls"
    by simp
  have allset: "\<forall>ex \<in> set (messages s). snd ex \<noteq> None"
    if "\<forall>r \<in> set rs. hd (choices r) \<noteq> None"
  proof
    fix ex
    assume "ex \<in> set (messages s)"
    then have "snd ex \<in> set (map snd (messages s))"
      by simp
    then have "snd ex \<in> set (map (\<lambda>r. hd (choices r)) rs)"
      by (simp only: replies)
    then obtain r where "r \<in> set rs" and "snd ex = hd (choices r)"
      by auto
    with that show "snd ex \<noteq> None"
      by simp
  qed
  from inv have nonempty: "\<forall>r \<in> set rs. choices r \<noteq> []"
    by simp
  from inv fresh have counters:
    "prompt_tokens s = sum_list (map usage_prompt_tokens rs)"
    "completion_tokens s = sum_list (map usage_completion_tokens rs)"
    by simp_all
  from len len_rs prompts nonempty replies allset counters show ?thesis
    by blast
qed

lemma example_init:
  "init \<lparr>model = ''x'', rate = (1, 1), system = Some ''y'', messages = [(''a'', None)],
         cost = Str ''z'', prompt_tokens = 5, completion_tokens = 6\<rparr> (PyModel GPT3_5) None
   = Inr \<lparr>model = ''gpt-3.5-turbo'', rate = (float_literal (2 / 1000), float_literal (2 / 1000)),
          system = None, messages = [], cost = StrType, prompt_tokens = 0, completion_tokens = 0\<rparr>"
  by (simp only: init_def change_model_def py_value.case model_value.simps fst_conv snd_conv
        prod.case sum.case) simp

lemma example_respond_all:
  "respond_all
     (\<lambda>m ms k n. (Inr (Some (if n = (0 :: int)
                                   then \<lparr>usage_prompt_tokens = 10, usage_completion_tokens = 5, choices = [Some ''hello'']\<rparr>
                                   else \<lparr>usage_prompt_tokens = 20000, usage_completion_tokens = 7000,
             choices = [Some ''again'', Some ''other'']\<rparr>)), n + 1))
     [(''hi'', True, [] :: (string \<times> int) list), (''more'', False, [(''temperature'', 1)])]
     (\<lparr>model = ''gpt-3.5-turbo'', rate = (float_literal (2 / 1000), float_literal (2 / 1000)),
      system = None, messages = [], cost = StrType, prompt_tokens = 0, completion_tokens = 0\<rparr>, 0)
   = Some ([\<lparr>usage_prompt_tokens = 10, usage_completion_tokens = 5, choices = [Some ''hello'']\<rparr>,
            \<lparr>usage_prompt_tokens = 20000, usage_completion_tokens = 7000,
             choices = [Some ''again'', Some ''other'']\<rparr>],
           \<lparr>model = ''gpt-3.5-turbo'', rate = (float_literal (2 / 1000), float_literal (2 / 1000)),
            system = None, messages = [(''hi'', Some ''hello''), (''more'', Some ''again'')],
            cost = Str ''$0.05'', prompt_tokens = 20010, completion_tokens = 7005\<rparr>, 2)"
  by code_simp

theorem respond_all_history_and_counters_witness:
  "respond_all
     (\<lambda>m ms k n. (Inr (Some (if n = (0 :: int)
                                   then \<lparr>usage_prompt_tokens = 10, usage_completion_tokens = 5, choices = [Some ''hello'']\<rparr>
                                   else \<lparr>usage_prompt_tokens = 20000, usage_completion_tokens = 7000,
             choices = [Some ''again'', Some ''other'']\<rparr>)), n + 1))
     [(''hi'', True, [] :: (string \<times> int) list), (''more'', False, [(''temperature'', 1)])]
     (\<lparr>model = ''gpt-3.5-turbo'', rate = (float_literal (2 / 1000), float_literal (2 / 1000)),
      system = None, messages = [], cost = StrType, prompt_tokens = 0, completion_tokens = 0\<rparr>, 0)
   = Some ([\<lparr>usage_prompt_tokens = 10, usage_completion_tokens = 5, choices = [Some ''hello'']\<rparr>,
            \<lparr>usage_prompt_tokens = 20000, usage_completion_tokens = 7000,
             choices = [Some ''again'', Some ''other'']\<rparr>],
           \<lparr>model = ''gpt-3.5-turbo'', rate = (float_literal (2 / 1000), float_literal (2 / 1000)),
            system = None, messages = [(''hi'', Some ''hello''), (''more'', Some ''again'')],
            cost = Str ''$0.05'', prompt_tokens = 20010, completion_tokens = 7005\<rparr>, 2)
   \<and> map snd [(''hi'', Some ''hello''), (''more'', Some ''again'')]
       = map (\<lambda>r. hd (choices r))
           [\<lparr>usage_prompt_tokens = 10, usage_completion_tokens = 5, choices = [Some ''hello'']\<rparr>,
            \<lparr>usage_prompt_tokens = 20000, usage_completion_tokens = 7000,
             choices = [Some ''again'', Some ''other'']\<rparr>]
   \<and> (20010 :: int) = sum_list (map usage_prompt_tokens
         [\<lparr>usage_prompt_tokens = 10, usage_completion_tokens = 5, choices = [Some ''hello'']\<rparr>,
          \<lparr>usage_prompt_tokens = 20000, usage_completion_tokens = 7000,
             choices = [Some ''again'', Some ''other'']\<rparr>])
   \<and> (7005 :: int) = sum_list (map usage_completion_tokens
         [\<lparr>usage_prompt_tokens = 10, usage_completion_tokens = 5, choices = [Some ''hello'']\<rparr>,
          \<lparr>usage_prompt_tokens = 20000, usage_completion_tokens = 7000,
             choices = [Some ''again'', Some ''other'']\<rparr>])"
proof -
  note concl = respond_all_history_and_counters [OF example_init example_respond_all]
  from concl have a:
    "map snd [(''hi'', Some ''hello''), (''more'', Some ''again'')]
       = map (\<lambda>r. hd (choices r))
           [\<lparr>usage_prompt_tokens = 10, usage_completion_tokens = 5, choices = [Some ''hello'']\<rparr>,
            \<lparr>usage_prompt_tokens = 20000, usage_completion_tokens = 7000,
             choices = [Some ''again'', Some ''other'']\<rparr>]"
    by simp
  from concl have b:
    "(20010 :: int) = sum_list (map usage_prompt_tokens
         [\<lparr>usage_prompt_tokens = 10, usage_completion_tokens = 5, choices = [Some ''hello'']\<rparr>,
          \<lparr>usage_prompt_tokens = 20000, usage_completion_tokens = 7000,
             choices = [Some ''again'', Some ''other'']\<rparr>])"
    by simp
  from concl have c:
    "(7005 :: int) = sum_list (map usage_completion_tokens
         [\<lparr>usage_prompt_tokens = 10, usage_completion_tokens = 5, choices = [Some ''hello'']\<rparr>,
          \<lparr>usage_prompt_tokens = 20000, usage_completion_tokens = 7000,
             choices = [Some ''again'', Some ''other'']\<rparr>])"
    by simp
  from a b c show ?thesis
    using example_respond_all by (intro conjI)
qed

text \<open>
  Claim C2 as the claim states it: one call on a freshly constructed object, answered
  with a first choice whose content is \<^verbatim>\<open>None\<close>. The call returns, with \<^verbatim>\<open>None\<close>; the
  history has its one exchange, and the reply of that exchange is not set.
\<close>

theorem respond_all_reply_unset_counterexample:
  "init \<lparr>model = ''x'', rate = (1, 1), system = Some ''y'', messages = [(''a'', None)],
         cost = Str ''z'', prompt_tokens = 5, completion_tokens = 6\<rparr> (PyModel GPT3_5) None
     = Inr \<lparr>model = ''gpt-3.5-turbo'', rate = (float_literal (2 / 1000), float_literal (2 / 1000)),
      system = None, messages = [], cost = StrType, prompt_tokens = 0, completion_tokens = 0\<rparr>
   \<and> response (\<lambda>m ms k w. (Inr (Some \<lparr>usage_prompt_tokens = 10, usage_completion_tokens = 5, choices = [None]\<rparr>), w)) ''hi'' True ([] :: (string \<times> int) list)
       (\<lparr>model = ''gpt-3.5-turbo'', rate = (float_literal (2 / 1000), float_literal (2 / 1000)),
      system = None, messages = [], cost = StrType, prompt_tokens = 0, completion_tokens = 0\<rparr>, ())
     = (Inr (Reply None), \<lparr>model = ''gpt-3.5-turbo'', rate = (float_literal (2 / 1000), float_literal (2 / 1000)),
            system = None, messages = [(''hi'', None)], cost = Str ''$0.00'',
            prompt_tokens = 10, completion_tokens = 5\<rparr>, ())
   \<and> respond_all (\<lambda>m ms k w. (Inr (Some \<lparr>usage_prompt_tokens = 10, usage_completion_tokens = 5, choices = [None]\<rparr>), w)) [(''hi'', True, [] :: (string \<times> int) list)]
       (\<lparr>model = ''gpt-3.5-turbo'', rate = (float_literal (2 / 1000), float_literal (2 / 1000)),
      system = None, messages = [], cost = StrType, prompt_tokens = 0, completion_tokens = 0\<rparr>, ())
     = Some ([\<lparr>usage_prompt_tokens = 10, usage_completion_tokens = 5, choices = [None]\<rparr>], \<lparr>model = ''gpt-3.5-turbo'', rate = (float_literal (2 / 1000), float_literal (2 / 1000)),
            system = None, messages = [(''hi'', None)], cost = Str ''$0.00'',
            prompt_tokens = 10, completion_tokens = 5\<rparr>, ())
   \<and> snd (hd (messages \<lparr>model = ''gpt-3.5-turbo'', rate = (float_literal (2 / 1000), float_literal (2 / 1000)),
            system = None, messages = [(''hi'', None)], cost = Str ''$0.00'',
            prompt_tokens = 10, completion_tokens = 5\<rparr>)) = None"
proof (intro conjI)
  show "init \<lparr>model = ''x'', rate = (1, 1), system = Some ''y'', messages = [(''a'', None)],
         cost = Str ''z'', prompt_tokens = 5, completion_tokens = 6\<rparr> (PyModel GPT3_5) None
     = Inr \<lparr>model = ''gpt-3.5-turbo'', rate = (float_literal (2 / 1000), float_literal (2 / 1000)),
      system = None, messages = [], cost = StrType, prompt_tokens = 0, completion_tokens = 0\<rparr>"
    by (rule example_init)
  show "response (\<lambda>m ms k w. (Inr (Some \<lparr>usage_prompt_tokens = 10, usage_completion_tokens = 5, choices = [None]\<rparr>), w)) ''hi'' True ([] :: (string \<times> int) list)
       (\<lparr>model = ''gpt-3.5-turbo'', rate = (float_literal (2 / 1000), float_literal (2 / 1000)),
      system = None, messages = [], cost = StrType, prompt_tokens = 0, completion_tokens = 0\<rparr>, ())
     = (Inr (Reply None), \<lparr>model = ''gpt-3.5-turbo'', rate = (float_literal (2 / 1000), float_literal (2 / 1000)),
            system = None, messages = [(''hi'', None)], cost = Str ''$0.00'',
            prompt_tokens = 10, completion_tokens = 5\<rparr>, ())"
    by code_simp
  show "respond_all (\<lambda>m ms k w. (Inr (Some \<lparr>usage_prompt_tokens = 10, usage_completion_tokens = 5, choices = [None]\<rparr>), w)) [(''hi'', True, [] :: (string \<times> int) list)]
       (\<lparr>model = ''gpt-3.5-turbo'', rate = (float_literal (2 / 1000), float_literal (2 / 1000)),
      system = None, messages = [], cost = StrType, prompt_tokens = 0, completion_tokens = 0\<rparr>, ())
     = Some ([\<lparr>usage_prompt_tokens = 10, usage_completion_tokens = 5, choices = [None]\<rparr>], \<lparr>model = ''gpt-3.5-turbo'', rate = (float_literal (2 / 1000), float_literal (2 / 1000)),
            system = None, messages = [(''hi'', None)], cost = Str ''$0.00'',
            prompt_tokens = 10, completion_tokens = 5\<rparr>, ())"
    by code_simp
  show "snd (hd (messages \<lparr>model = ''gpt-3.5-turbo'', rate = (float_literal (2 / 1000), float_literal (2 / 1000)),
            system = None, messages = [(''hi'', None)], cost = Str ''$0.00'',
            prompt_tokens = 10, completion_tokens = 5\<rparr>)) = None"
    by simp
qed

end
